theory Spec2Isabelle
  imports Complex_Main "HOL-Library.Sublist"
begin

section \<open>The fee ledger of \<^verbatim>\<open>app.py\<close>\<close>

text \<open>
  The application is a Flask program over an SQLite file with the tables
  \<^verbatim>\<open>students\<close> and \<^verbatim>\<open>fees\<close>. Each route handler is embedded as a function
  from the request and the database state to a response and the new state. Conventions:
  \<^item> a Python \<^verbatim>\<open>str\<close> is a \<open>string\<close>, one \<open>char\<close> standing for one code point
    (so the model covers the code points below 256);
  \<^item> a \<^verbatim>\<open>REAL\<close> column and a Python \<^verbatim>\<open>float\<close> are a \<open>real\<close>: sums and differences
    are exact, rounding and the non-finite floats are outside the embedding;
  \<^item> an \<^verbatim>\<open>INTEGER PRIMARY KEY AUTOINCREMENT\<close> is a \<open>nat\<close>;
  \<^item> columns that every \<^verbatim>\<open>INSERT\<close> and \<^verbatim>\<open>UPDATE\<close> of the program fills with a
    \<^verbatim>\<open>str\<close> or a \<^verbatim>\<open>float\<close> are not nullable in the model; \<^verbatim>\<open>photo\<close>, which the
    program writes as \<^verbatim>\<open>None\<close>, is an \<open>option\<close>.
\<close>

subsection \<open>Rows and tables (\<^verbatim>\<open>init_db\<close>)\<close>

record student =
  s_id :: nat
  s_name :: string
  s_roll_no :: string
  s_course :: string
  s_year :: string
  s_email :: string
  s_phone :: string
  s_total_fee :: real
  s_photo :: "string option"

record fee =
  f_id :: nat
  f_student_id :: nat
  f_amount :: real
  f_date :: string
  f_mode :: string
  f_remark :: string

text \<open>
  The texts handed to \<^verbatim>\<open>send_sms\<close> and \<^verbatim>\<open>send_email\<close> are f-strings over the
  student's name and the amount; a \<open>notice\<close> keeps which text it is and its parameters.
\<close>

datatype notice =
    Admission_sms string
  | Admission_email string
  | Fees_sms string real
  | Fees_email string real

datatype attempt = Send_sms string notice | Send_email string notice

datatype log_line = Notification_error_admission | Notification_error_fees

text \<open>
  The state: both tables in rowid order, the \<^verbatim>\<open>sqlite_sequence\<close> counters that
  \<^verbatim>\<open>AUTOINCREMENT\<close> keeps, the files written to the upload folder, the delivery
  attempts made so far, and the lines printed by the \<^verbatim>\<open>except\<close> branches. No balance
  is stored anywhere.
\<close>

record state =
  students_tbl :: "student list"
  fees_tbl :: "fee list"
  students_seq :: nat
  fees_seq :: nat
  uploads :: "string list"
  outbox :: "attempt list"
  printed :: "log_line list"

definition init_db :: state where
  "init_db = \<lparr>students_tbl = [], fees_tbl = [], students_seq = 0, fees_seq = 0,
     uploads = [], outbox = [], printed = []\<rparr>"

subsection \<open>Requests, responses and the environment\<close>

datatype verb = GET | POST

record request =
  logged_in :: bool
  http_method :: verb
  form :: "string \<rightharpoonup> string"
  args :: "string \<rightharpoonup> string"
  files :: "string \<rightharpoonup> string"

text \<open>
  \<open>logged_in\<close> is \<^verbatim>\<open>'user_id' in session\<close>; \<open>files\<close> maps a field to the file name
  of its upload.
\<close>

record datetime =
  dt_year :: nat
  dt_month :: nat
  dt_day :: nat
  dt_hour :: nat
  dt_minute :: nat
  dt_second :: nat

text \<open>
  What a handler takes from outside the program is a parameter:
  \<^item> \<open>py_float\<close>: Python's \<^verbatim>\<open>float\<close> on a \<^verbatim>\<open>str\<close>, \<open>None\<close> when it raises
    \<^verbatim>\<open>ValueError\<close>;
  \<^item> \<open>secure_filename\<close>: Werkzeug's function of that name;
  \<^item> \<open>now k\<close>: the result of the \<open>k\<close>-th call of \<^verbatim>\<open>datetime.now()\<close> in the handler;
  \<^item> \<open>send_ok a\<close>: whether the call of \<^verbatim>\<open>send_sms\<close> or \<^verbatim>\<open>send_email\<close> for the
    attempt \<open>a\<close> returns (\<open>True\<close>) or raises an \<^verbatim>\<open>Exception\<close> (\<open>False\<close>). The file
    calls both functions and defines neither, so nothing is assumed about them.
\<close>

record env =
  py_float :: "string \<Rightarrow> real option"
  secure_filename :: "string \<Rightarrow> string"
  now :: "nat \<Rightarrow> datetime"
  send_ok :: "attempt \<Rightarrow> bool"

record result_row =
  r_student :: student
  r_paid :: real
  r_due :: real

record dues_csv_row =
  c_id :: nat
  c_name :: string
  c_roll :: string
  c_course :: string
  c_phone :: string
  c_total_fee :: real
  c_paid :: real
  c_due :: real

datatype response =
    Redirect_login
  | Redirect_students
  | Redirect_receipt nat
  | Body string
  | Template string
  | Dashboard_page nat real real real
  | Dues_report_page "result_row list" string
  | Student_profile_page student "fee list" real real
  | Dues_csv "string list" "dues_csv_row list"
  | Method_not_allowed
  | Bad_request
  | Value_error

text \<open>
  \<open>Body\<close> is a handler returning a plain string, \<open>Template\<close> a form page rendered
  without data, \<open>Bad_request\<close> the \<^verbatim>\<open>KeyError\<close> of \<^verbatim>\<open>request.form[k]\<close> on a missing
  field (HTTP 400), \<open>Value_error\<close> the uncaught \<^verbatim>\<open>ValueError\<close> of \<^verbatim>\<open>float\<close>
  (HTTP 500), \<open>Method_not_allowed\<close> the router's answer to a verb the route does not
  list.
\<close>

type_synonym handler = "env \<Rightarrow> request \<Rightarrow> state \<Rightarrow> response \<times> state"

subsection \<open>SQLite and Python primitives\<close>

text \<open>
  \<^verbatim>\<open>AUTOINCREMENT\<close>: the new rowid is one more than the largest rowid the table has
  ever held.
\<close>

definition next_rowid :: "nat \<Rightarrow> nat list \<Rightarrow> nat" where
  "next_rowid seq ids = Suc (fold max ids seq)"

text \<open>\<^verbatim>\<open>IFNULL(SUM(amount),0)\<close> over the selected rows: 0 when there is none.\<close>

definition sum_amount :: "fee list \<Rightarrow> real" where
  "sum_amount fs = sum_list (map f_amount fs)"

text \<open>Python's \<^verbatim>\<open>x or 0\<close> on a number: a falsy \<open>x\<close> is zero.\<close>

definition or_zero :: "real \<Rightarrow> real" where
  "or_zero x = (if x = 0 then 0 else x)"

text \<open>
  SQLite's \<^verbatim>\<open>LIKE\<close> (pattern first): \<^verbatim>\<open>%\<close> matches any run of characters,
  \<^verbatim>\<open>_\<close> any one character, and any other character matches itself up to the case
  of the ASCII letters. There is no escape character unless the statement names one.
\<close>

definition ascii_lower :: "char \<Rightarrow> char" where
  "ascii_lower c =
     (let n = (of_char c :: nat) in if 65 \<le> n \<and> n \<le> 90 then char_of (n + 32) else c)"

fun like :: "string \<Rightarrow> string \<Rightarrow> bool" where
  "like [] [] = True"
| "like [] (c # cs) = False"
| "like (p # ps) [] = (p = CHR ''%'' \<and> like ps [])"
| "like (p # ps) (c # cs) =
     (if p = CHR ''%'' then like ps (c # cs) \<or> like (p # ps) cs
      else (p = CHR ''_'' \<or> ascii_lower p = ascii_lower c) \<and> like ps cs)"

text \<open>\<^verbatim>\<open>ORDER BY id\<close> and \<^verbatim>\<open>ORDER BY id DESC\<close>.\<close>

definition order_by_id :: "student list \<Rightarrow> student list" where
  "order_by_id xs = sort_key s_id xs"

definition order_by_id_desc :: "student list \<Rightarrow> student list" where
  "order_by_id_desc xs = rev (sort_key s_id xs)"

definition fees_by_id_desc :: "fee list \<Rightarrow> fee list" where
  "fees_by_id_desc xs = rev (sort_key f_id xs)"

text \<open>\<^verbatim>\<open>str.strip()\<close>: the characters with \<^verbatim>\<open>isspace()\<close> are cut from both ends.\<close>

definition isspace :: "char \<Rightarrow> bool" where
  "isspace c = ((of_char c :: nat) \<in> {9, 10, 11, 12, 13, 28, 29, 30, 31, 32, 133, 160})"

definition strip :: "string \<Rightarrow> string" where
  "strip s = rev (dropWhile isspace (rev (dropWhile isspace s)))"

text \<open>
  \<^verbatim>\<open>strftime\<close> with the formats of the program; the fields are zero-padded decimals
  (years from 1000 to 9999, as the clock gives them).
\<close>

definition digit :: "nat \<Rightarrow> char" where
  "digit n = char_of (48 + n mod 10)"

definition pad2 :: "nat \<Rightarrow> string" where
  "pad2 n = [digit (n div 10), digit n]"

definition pad4 :: "nat \<Rightarrow> string" where
  "pad4 n = [digit (n div 1000), digit (n div 100), digit (n div 10), digit n]"

definition strftime_Ym :: "datetime \<Rightarrow> string" where
  "strftime_Ym d = pad4 (dt_year d) @ ''-'' @ pad2 (dt_month d)"

definition strftime_Ymd :: "datetime \<Rightarrow> string" where
  "strftime_Ymd d = pad4 (dt_year d) @ ''-'' @ pad2 (dt_month d) @ ''-'' @ pad2 (dt_day d)"

definition strftime_Ymd_HMS :: "datetime \<Rightarrow> string" where
  "strftime_Ymd_HMS d =
     strftime_Ymd d @ '' '' @ pad2 (dt_hour d) @ '':'' @ pad2 (dt_minute d) @ '':''
       @ pad2 (dt_second d)"

definition strftime_YmdHMS :: "datetime \<Rightarrow> string" where
  "strftime_YmdHMS d =
     pad4 (dt_year d) @ pad2 (dt_month d) @ pad2 (dt_day d) @ pad2 (dt_hour d)
       @ pad2 (dt_minute d) @ pad2 (dt_second d)"

text \<open>\<^verbatim>\<open>str(n)\<close> of a non-negative \<^verbatim>\<open>int\<close>, as the f-string of \<^verbatim>\<open>edit_student\<close> renders the id.\<close>

fun str_nat :: "nat \<Rightarrow> string" where
  "str_nat n = (if n < 10 then [digit n] else str_nat (n div 10) @ [digit n])"

declare str_nat.simps [simp del]

subsection \<open>Shared steps of the handlers\<close>

text \<open>The decorator \<^verbatim>\<open>login_required\<close>.\<close>

definition login_required ::
  "request \<Rightarrow> (state \<Rightarrow> response \<times> state) \<Rightarrow> state \<Rightarrow> response \<times> state" where
  "login_required rq f s = (if logged_in rq then f s else (Redirect_login, s))"

text \<open>\<^verbatim>\<open>float(request.form.get('total_fee') or 20000)\<close>.\<close>

definition total_fee_of_form :: "env \<Rightarrow> request \<Rightarrow> real option" where
  "total_fee_of_form e rq =
     (case form rq ''total_fee'' of
        None \<Rightarrow> Some 20000
      | Some t \<Rightarrow> if t = [] then Some 20000 else py_float e t)"

text \<open>
  The upload block of \<^verbatim>\<open>admission\<close> and \<^verbatim>\<open>edit_student\<close>: a photo with a non-empty
  file name is saved under \<^verbatim>\<open>{prefix}_{timestamp}_{fname}\<close>.
\<close>

definition save_photo :: "env \<Rightarrow> request \<Rightarrow> string \<Rightarrow> state \<Rightarrow> string option \<times> state" where
  "save_photo e rq pre s =
     (case files rq ''photo'' of
        None \<Rightarrow> (None, s)
      | Some fn \<Rightarrow>
          if fn = [] then (None, s)
          else
            (let fname = secure_filename e fn;
                 timestamp = strftime_YmdHMS (now e 0);
                 filename = pre @ ''_'' @ timestamp @ ''_'' @ fname
             in (Some filename, s\<lparr>uploads := uploads s @ [filename]\<rparr>)))"

text \<open>
  The notification block of \<^verbatim>\<open>admission\<close> and \<^verbatim>\<open>fees\<close>:
  \<^verbatim>\<open>
  try:
      if phone: send_sms(phone, ...)
      if email: send_email(email, ...)
  except Exception as e:
      print("Notification send error (...):", e)
  \<close>
  A call that raises ends the \<^verbatim>\<open>try\<close> body, so a failed SMS skips the e-mail.
\<close>

definition call_send :: "env \<Rightarrow> attempt \<Rightarrow> state \<Rightarrow> bool \<times> state" where
  "call_send e a s = (send_ok e a, s\<lparr>outbox := outbox s @ [a]\<rparr>)"

definition notify ::
  "env \<Rightarrow> log_line \<Rightarrow> string \<Rightarrow> notice \<Rightarrow> string \<Rightarrow> notice \<Rightarrow> state \<Rightarrow> state" where
  "notify e tag phone sms email mail s =
     (let (ok1, s1) = (if phone \<noteq> [] then call_send e (Send_sms phone sms) s else (True, s))
      in if \<not> ok1 then s1\<lparr>printed := printed s1 @ [tag]\<rparr>
         else
           (let (ok2, s2) =
                  (if email \<noteq> [] then call_send e (Send_email email mail) s1 else (True, s1))
            in if \<not> ok2 then s2\<lparr>printed := printed s2 @ [tag]\<rparr> else s2))"

text \<open>
  \<^verbatim>\<open>SELECT IFNULL(SUM(amount),0) FROM fees WHERE student_id=?\<close> and
  \<^verbatim>\<open>SELECT * FROM fees WHERE student_id=? ORDER BY id DESC\<close>.
\<close>

definition select_paid :: "state \<Rightarrow> nat \<Rightarrow> real" where
  "select_paid s i = sum_amount (filter (\<lambda>f. f_student_id f = i) (fees_tbl s))"

definition select_fees_of :: "state \<Rightarrow> nat \<Rightarrow> fee list" where
  "select_fees_of s i = fees_by_id_desc (filter (\<lambda>f. f_student_id f = i) (fees_tbl s))"

subsection \<open>The handlers\<close>

text \<open>\<^verbatim>\<open>dashboard\<close> (route \<^verbatim>\<open>/\<close>): the counts and sums, each read from the tables.\<close>

definition dashboard :: handler where
  "dashboard e rq s =
     (if http_method rq \<noteq> GET then (Method_not_allowed, s)
      else login_required rq (\<lambda>s.
        let total_students = length (students_tbl s);
            total_collection = sum_amount (fees_tbl s);
            today = strftime_Ymd (now e 0);
            today_collection = sum_amount (filter (\<lambda>f. like (today @ ''%'') (f_date f)) (fees_tbl s));
            month = strftime_Ym (now e 1);
            month_collection = sum_amount (filter (\<lambda>f. like (month @ ''%'') (f_date f)) (fees_tbl s))
        in (Dashboard_page total_students total_collection today_collection month_collection, s)) s)"

text \<open>
  \<^verbatim>\<open>admission\<close>: the form fields are read first, then the photo is saved, then the row is
  inserted. The \<^verbatim>\<open>UNIQUE\<close> constraint on \<^verbatim>\<open>roll_no\<close> makes the \<^verbatim>\<open>INSERT\<close> raise
  \<^verbatim>\<open>sqlite3.IntegrityError\<close>, which the handler answers with a plain string. No field is
  validated.
\<close>

definition admission :: handler where
  "admission e rq s =
     login_required rq (\<lambda>s.
       if http_method rq = POST then
         (case form rq ''name'' of None \<Rightarrow> (Bad_request, s) | Some name \<Rightarrow>
         (case form rq ''roll'' of None \<Rightarrow> (Bad_request, s) | Some roll_no \<Rightarrow>
         (case form rq ''course'' of None \<Rightarrow> (Bad_request, s) | Some course \<Rightarrow>
         (case form rq ''year'' of None \<Rightarrow> (Bad_request, s) | Some year \<Rightarrow>
         (case form rq ''email'' of None \<Rightarrow> (Bad_request, s) | Some email \<Rightarrow>
         (case form rq ''phone'' of None \<Rightarrow> (Bad_request, s) | Some phone \<Rightarrow>
         (case total_fee_of_form e rq of None \<Rightarrow> (Value_error, s) | Some total_fee \<Rightarrow>
            (let (filename, s1) = save_photo e rq roll_no s
             in if roll_no \<in> set (map s_roll_no (students_tbl s1))
                then (Body ''Roll number already exists!'', s1)
                else
                  (let new_id = next_rowid (students_seq s1) (map s_id (students_tbl s1));
                       row = \<lparr>s_id = new_id, s_name = name, s_roll_no = roll_no,
                              s_course = course, s_year = year, s_email = email,
                              s_phone = phone, s_total_fee = total_fee, s_photo = filename\<rparr>;
                       s2 = s1\<lparr>students_tbl := students_tbl s1 @ [row], students_seq := new_id\<rparr>;
                       s3 = notify e Notification_error_admission
                              phone (Admission_sms name) email (Admission_email name) s2
                   in (Redirect_students, s3))))))))))
       else (Template ''admission.html'', s)) s"

text \<open>
  \<^verbatim>\<open>edit_student\<close>: the \<^verbatim>\<open>UPDATE\<close> replaces every column but \<^verbatim>\<open>id\<close> and
  \<^verbatim>\<open>roll_no\<close> in the rows with the given id (\<^verbatim>\<open>photo\<close> only when one was uploaded).
  The page of the \<^verbatim>\<open>GET\<close> branch is not modelled beyond its name.
\<close>

definition edit_student :: "nat \<Rightarrow> handler" where
  "edit_student student_id e rq s =
     login_required rq (\<lambda>s.
       if http_method rq = POST then
         (case form rq ''name'' of None \<Rightarrow> (Bad_request, s) | Some name \<Rightarrow>
         (case form rq ''course'' of None \<Rightarrow> (Bad_request, s) | Some course \<Rightarrow>
         (case form rq ''year'' of None \<Rightarrow> (Bad_request, s) | Some year \<Rightarrow>
         (case form rq ''email'' of None \<Rightarrow> (Bad_request, s) | Some email \<Rightarrow>
         (case form rq ''phone'' of None \<Rightarrow> (Bad_request, s) | Some phone \<Rightarrow>
         (case total_fee_of_form e rq of None \<Rightarrow> (Value_error, s) | Some total_fee \<Rightarrow>
            (let (filename, s1) = save_photo e rq (str_nat student_id) s;
                 upd = (\<lambda>st. if s_id st = student_id
                         then st\<lparr>s_name := name, s_course := course, s_year := year,
                                 s_email := email, s_phone := phone, s_total_fee := total_fee,
                                 s_photo := (case filename of None \<Rightarrow> s_photo st
                                             | Some fn \<Rightarrow> Some fn)\<rparr>
                         else st)
             in (Redirect_students, s1\<lparr>students_tbl := map upd (students_tbl s1)\<rparr>))))))))
       else (Template ''edit_student.html'', s)) s"

text \<open>\<^verbatim>\<open>delete_student\<close> (\<^verbatim>\<open>POST\<close> only): the student's fees are deleted, then the student.\<close>

definition delete_student :: "nat \<Rightarrow> handler" where
  "delete_student student_id e rq s =
     (if http_method rq \<noteq> POST then (Method_not_allowed, s)
      else login_required rq (\<lambda>s.
        let s1 = s\<lparr>fees_tbl := filter (\<lambda>f. f_student_id f \<noteq> student_id) (fees_tbl s)\<rparr>;
            s2 = s1\<lparr>students_tbl := filter (\<lambda>st. s_id st \<noteq> student_id) (students_tbl s1)\<rparr>
        in (Redirect_students, s2)) s)"

text \<open>
  \<^verbatim>\<open>fees\<close>: the student is looked up by roll number, the entry is inserted with the
  amount as \<^verbatim>\<open>float\<close> returned it, the notification block runs after the commit, and the
  caller is sent to the receipt of the new entry. The amount is compared with nothing.
\<close>

definition fees :: handler where
  "fees e rq s =
     login_required rq (\<lambda>s.
       if http_method rq = POST then
         (case form rq ''roll'' of None \<Rightarrow> (Bad_request, s) | Some roll \<Rightarrow>
         (case form rq ''amount'' of None \<Rightarrow> (Bad_request, s) | Some amount_text \<Rightarrow>
         (case py_float e amount_text of None \<Rightarrow> (Value_error, s) | Some amount \<Rightarrow>
         (case form rq ''mode'' of None \<Rightarrow> (Bad_request, s) | Some mode \<Rightarrow>
            (let remark = (case form rq ''remark'' of None \<Rightarrow> [] | Some r \<Rightarrow> r)
             in (case find (\<lambda>st. s_roll_no st = roll) (students_tbl s) of
                  None \<Rightarrow> (Body ''Roll number not found!'', s)
                | Some stud \<Rightarrow>
                    (let student_id = s_id stud;
                         student_name = s_name stud;
                         student_phone = s_phone stud;
                         student_email = s_email stud;
                         date = strftime_Ymd_HMS (now e 0);
                         fee_id = next_rowid (fees_seq s) (map f_id (fees_tbl s));
                         row = \<lparr>f_id = fee_id, f_student_id = student_id, f_amount = amount,
                                f_date = date, f_mode = mode, f_remark = remark\<rparr>;
                         s1 = s\<lparr>fees_tbl := fees_tbl s @ [row], fees_seq := fee_id\<rparr>;
                         s2 = notify e Notification_error_fees
                                student_phone (Fees_sms student_name amount)
                                student_email (Fees_email student_name amount) s1
                     in (Redirect_receipt fee_id, s2))))))))
       else (Template ''fees.html'', s)) s"

text \<open>\<^verbatim>\<open>dues_report\<close>: the query is stripped; a non-empty one filters with \<^verbatim>\<open>LIKE\<close>.\<close>

definition dues_report :: handler where
  "dues_report e rq s =
     (if http_method rq \<noteq> GET then (Method_not_allowed, s)
      else login_required rq (\<lambda>s.
        let q = strip (case args rq ''q'' of None \<Rightarrow> [] | Some v \<Rightarrow> v);
            pat = ''%'' @ q @ ''%'';
            students =
              (if q \<noteq> [] then
                 order_by_id_desc
                   (filter (\<lambda>st. like pat (s_roll_no st) \<or> like pat (s_name st)) (students_tbl s))
               else order_by_id_desc (students_tbl s));
            results =
              map (\<lambda>st. let paid = select_paid s (s_id st);
                            due = or_zero (s_total_fee st) - paid
                        in \<lparr>r_student = st, r_paid = paid, r_due = due\<rparr>) students
        in (Dues_report_page results q, s)) s)"

text \<open>\<^verbatim>\<open>student_profile\<close>.\<close>

definition student_profile :: "nat \<Rightarrow> handler" where
  "student_profile student_id e rq s =
     (if http_method rq \<noteq> GET then (Method_not_allowed, s)
      else login_required rq (\<lambda>s.
        case find (\<lambda>st. s_id st = student_id) (students_tbl s) of
          None \<Rightarrow> (Body ''Student not found'', s)
        | Some st \<Rightarrow>
            (let fees = select_fees_of s student_id;
                 paid = select_paid s student_id;
                 due = or_zero (s_total_fee st) - paid
             in (Student_profile_page st fees paid due, s))) s)"

text \<open>
  \<^verbatim>\<open>export_dues\<close>: one row per student in id order; the cells are kept as values, before
  \<^verbatim>\<open>csv.writer\<close> renders them.
\<close>

definition export_dues :: handler where
  "export_dues e rq s =
     (if http_method rq \<noteq> GET then (Method_not_allowed, s)
      else login_required rq (\<lambda>s.
        let students = order_by_id (students_tbl s);
            header = [''ID'', ''Name'', ''Roll'', ''Course'', ''Phone'', ''Total Fee'', ''Paid'', ''Due''];
            rows =
              map (\<lambda>st. let paid = select_paid s (s_id st);
                            due = or_zero (s_total_fee st) - paid
                        in \<lparr>c_id = s_id st, c_name = s_name st, c_roll = s_roll_no st,
                            c_course = s_course st, c_phone = s_phone st,
                            c_total_fee = s_total_fee st, c_paid = paid, c_due = due\<rparr>) students
        in (Dues_csv header rows, s)) s)"

subsection \<open>Reachable states\<close>

text \<open>
  The routes above, as one step function. The remaining routes of the file write to
  neither table (\<^verbatim>\<open>login\<close>, \<^verbatim>\<open>logout\<close>, \<^verbatim>\<open>id_card\<close>, the lists, the receipt, the
  other exports and \<^verbatim>\<open>search\<close>).
\<close>

datatype route =
    Dashboard
  | Admission
  | Edit_student nat
  | Delete_student nat
  | Fees
  | Dues_report
  | Student_profile nat
  | Export_dues

fun dispatch :: "route \<Rightarrow> handler" where
  "dispatch Dashboard = dashboard"
| "dispatch Admission = admission"
| "dispatch (Edit_student i) = edit_student i"
| "dispatch (Delete_student i) = delete_student i"
| "dispatch Fees = fees"
| "dispatch Dues_report = dues_report"
| "dispatch (Student_profile i) = student_profile i"
| "dispatch Export_dues = export_dues"

inductive reachable :: "state \<Rightarrow> bool" where
  start: "reachable init_db"
| step: "reachable s \<Longrightarrow> dispatch r e rq s = (resp, s') \<Longrightarrow> reachable s'"

text \<open>The constraints of the schema: \<^verbatim>\<open>id\<close> is a primary key, \<^verbatim>\<open>roll_no\<close> is unique.\<close>

definition primary_keys :: "state \<Rightarrow> bool" where
  "primary_keys s =
     (distinct (map s_id (students_tbl s)) \<and> distinct (map f_id (fees_tbl s))
      \<and> distinct (map s_roll_no (students_tbl s)))"

text \<open>Every fee entry belongs to a student of the table.\<close>

definition referential_integrity :: "state \<Rightarrow> bool" where
  "referential_integrity s =
     list_all (\<lambda>f. f_student_id f \<in> set (map s_id (students_tbl s))) (fees_tbl s)"

subsection \<open>Predicates of the specification\<close>




subsection \<open>Sample data\<close>

text \<open>
  One student, CS101 with a total fee of 20000, as in the example of the specification;
  a clock at 2024-03-09 10:30:00; a \<^verbatim>\<open>float\<close> that knows the numerals used below; and
  a provider whose every call raises.
\<close>

definition sample_student :: student where
  "sample_student =
     \<lparr>s_id = 1, s_name = ''Asha'', s_roll_no = ''CS101'', s_course = ''CSE'', s_year = ''2'',
      s_email = ''asha@example.org'', s_phone = ''9000000001'', s_total_fee = 20000,
      s_photo = None\<rparr>"

definition sample_state :: state where
  "sample_state = init_db\<lparr>students_tbl := [sample_student], students_seq := 1\<rparr>"

definition sample_clock :: datetime where
  "sample_clock =
     \<lparr>dt_year = 2024, dt_month = 3, dt_day = 9, dt_hour = 10, dt_minute = 30, dt_second = 0\<rparr>"

definition sample_float :: "string \<Rightarrow> real option" where
  "sample_float t =
     (if t = ''5000'' then Some 5000
      else if t = ''25000'' then Some 25000
      else if t = ''-10'' then Some (- 10)
      else if t = ''-5'' then Some (- 5)
      else None)"

definition sample_env :: env where
  "sample_env =
     \<lparr>py_float = sample_float, secure_filename = (\<lambda>n. n), now = (\<lambda>k. sample_clock),
      send_ok = (\<lambda>a. False)\<rparr>"

definition get_request :: "string \<Rightarrow> request" where
  "get_request q =
     \<lparr>logged_in = True, http_method = GET, form = Map.empty, args = [''q'' \<mapsto> q],
      files = Map.empty\<rparr>"

definition payment_request :: "string \<Rightarrow> string \<Rightarrow> request" where
  "payment_request roll amount =
     \<lparr>logged_in = True, http_method = POST,
      form = [''roll'' \<mapsto> roll, ''amount'' \<mapsto> amount, ''mode'' \<mapsto> ''cash''],
      args = Map.empty, files = Map.empty\<rparr>"

definition admission_request :: "string \<Rightarrow> string \<Rightarrow> string \<Rightarrow> request" where
  "admission_request name roll total_fee =
     \<lparr>logged_in = True, http_method = POST,
      form = [''name'' \<mapsto> name, ''roll'' \<mapsto> roll, ''course'' \<mapsto> ''CSE'', ''year'' \<mapsto> ''1'',
              ''email'' \<mapsto> [], ''phone'' \<mapsto> [], ''total_fee'' \<mapsto> total_fee],
      args = Map.empty, files = Map.empty\<rparr>"

definition sample_fee :: "nat \<Rightarrow> real \<Rightarrow> string \<Rightarrow> fee" where
  "sample_fee i a d =
     \<lparr>f_id = i, f_student_id = 1, f_amount = a, f_date = d, f_mode = ''cash'', f_remark = []\<rparr>"

text \<open>
  Two states reached from the empty database: after the admission of CS101 (no phone, no
  e-mail address), and after a payment of 5000 for that student.
\<close>

definition sample_admitted :: state where
  "sample_admitted =
     snd (admission sample_env (admission_request ''Asha'' ''CS101'' ''5000'') init_db)"

definition sample_paid :: state where
  "sample_paid = snd (fees sample_env (payment_request ''CS101'' ''5000'') sample_admitted)"

text \<open>
  A ledger with three entries for CS101: one of the sample clock's day, one of the day
  before, and one whose date is not in the canonical format. And a table of two students.
\<close>

definition sample_ledger :: state where
  "sample_ledger =
     sample_state\<lparr>fees_tbl :=
        [sample_fee 1 5000 ''2024-03-09 10:30:00'', sample_fee 2 700 ''2024-03-08 09:00:00'',
         sample_fee 3 40 ''09/03/2024''],
       fees_seq := 3\<rparr>"



section \<open>Properties\<close>

subsection \<open>Basic facts about the primitives\<close>







subsection \<open>Basic facts about the shared steps\<close>

lemma notify_tables:
  "students_tbl (notify e tag ph a em b s) = students_tbl s"
  "fees_tbl (notify e tag ph a em b s) = fees_tbl s"
  "students_seq (notify e tag ph a em b s) = students_seq s"
  "fees_seq (notify e tag ph a em b s) = fees_seq s"
  "uploads (notify e tag ph a em b s) = uploads s"
  by (simp_all add: notify_def call_send_def)

lemma notify_outbox:
  "outbox (notify e tag ph a em b s) =
     outbox s @ (if ph \<noteq> [] then [Send_sms ph a] else [])
       @ (if em \<noteq> [] \<and> (ph = [] \<or> send_ok e (Send_sms ph a)) then [Send_email em b] else [])"
  by (simp add: notify_def call_send_def)

lemma notify_printed:
  "printed (notify e tag ph a em b s) =
     printed s @ (if (ph \<noteq> [] \<and> \<not> send_ok e (Send_sms ph a))
                    \<or> (em \<noteq> [] \<and> \<not> send_ok e (Send_email em b)) then [tag] else [])"
  by (simp add: notify_def call_send_def)

lemma save_photo_tables:
  "save_photo e rq pre s = (fn, s1) \<Longrightarrow>
     students_tbl s1 = students_tbl s \<and> fees_tbl s1 = fees_tbl s
     \<and> students_seq s1 = students_seq s \<and> fees_seq s1 = fees_seq s
     \<and> outbox s1 = outbox s \<and> printed s1 = printed s"
  by (auto simp: save_photo_def Let_def split: option.splits if_splits)

lemma fees_post:
  assumes "logged_in rq" "http_method rq = POST"
    and "form rq ''roll'' = Some roll" "form rq ''amount'' = Some a"
    and "py_float e a = Some amount" "form rq ''mode'' = Some mode"
  shows "fees e rq s =
     (case find (\<lambda>st. s_roll_no st = roll) (students_tbl s) of
        None \<Rightarrow> (Body ''Roll number not found!'', s)
      | Some stud \<Rightarrow>
          (Redirect_receipt (next_rowid (fees_seq s) (map f_id (fees_tbl s))),
           notify e Notification_error_fees
             (s_phone stud) (Fees_sms (s_name stud) amount)
             (s_email stud) (Fees_email (s_name stud) amount)
             (s\<lparr>fees_tbl := fees_tbl s @
                   [\<lparr>f_id = next_rowid (fees_seq s) (map f_id (fees_tbl s)),
                     f_student_id = s_id stud, f_amount = amount,
                     f_date = strftime_Ymd_HMS (now e 0), f_mode = mode,
                     f_remark = (case form rq ''remark'' of None \<Rightarrow> [] | Some r \<Rightarrow> r)\<rparr>],
                 fees_seq := next_rowid (fees_seq s) (map f_id (fees_tbl s))\<rparr>)))"
  using assms by (simp add: fees_def login_required_def Let_def split: option.splits)

lemma fees_students_unchanged:
  "fees e rq s = (resp, s') \<Longrightarrow> students_tbl s' = students_tbl s"
  by (auto simp: fees_def login_required_def Let_def notify_tables split: option.splits if_splits)

lemma fees_post_found:
  assumes "logged_in rq" and "http_method rq = POST"
    and "form rq ''roll'' = Some roll" and "form rq ''amount'' = Some a"
    and "py_float e a = Some amount" and "form rq ''mode'' = Some mode"
    and "find (\<lambda>st. s_roll_no st = roll) (students_tbl s) = Some stud"
  shows "fees e rq s =
     (Redirect_receipt (next_rowid (fees_seq s) (map f_id (fees_tbl s))),
      notify e Notification_error_fees
        (s_phone stud) (Fees_sms (s_name stud) amount)
        (s_email stud) (Fees_email (s_name stud) amount)
        (s\<lparr>fees_tbl := fees_tbl s @
              [\<lparr>f_id = next_rowid (fees_seq s) (map f_id (fees_tbl s)),
                f_student_id = s_id stud, f_amount = amount,
                f_date = strftime_Ymd_HMS (now e 0), f_mode = mode,
                f_remark = (case form rq ''remark'' of None \<Rightarrow> [] | Some r \<Rightarrow> r)\<rparr>],
            fees_seq := next_rowid (fees_seq s) (map f_id (fees_tbl s))\<rparr>))"
  using fees_post [OF assms(1-6), of s] assms(7) by simp

lemma notify_attempts:
  "\<exists>new. outbox (notify e tag ph a em b s) = outbox s @ new
     \<and> (ph = [] \<longrightarrow> (\<forall>p n. Send_sms p n \<notin> set new))
     \<and> (em = [] \<longrightarrow> (\<forall>p n. Send_email p n \<notin> set new))
     \<and> printed (notify e tag ph a em b s) =
         printed s @ (if \<exists>x\<in>set new. \<not> send_ok e x then [tag] else [])"
  by (cases "ph = []"; cases "em = []"; cases "send_ok e (Send_sms ph a)";
      cases "send_ok e (Send_email em b)")
     (simp_all add: notify_outbox notify_printed)

lemma sample_payment_fields:
  "logged_in (payment_request r a)" "http_method (payment_request r a) = POST"
  "form (payment_request r a) ''roll'' = Some r"
  "form (payment_request r a) ''amount'' = Some a"
  "form (payment_request r a) ''mode'' = Some ''cash''"
  "form (payment_request r a) ''remark'' = None"
  by (simp_all add: payment_request_def)

lemma sample_find_roll:
  "find (\<lambda>st. s_roll_no st = ''CS101'') (students_tbl sample_state) = Some sample_student"
  by (simp add: sample_state_def sample_student_def init_db_def)

subsection \<open>Payments and notifications\<close>

text \<open>
  Claim C5. A payment whose entry is committed is answered with the redirect to its
  receipt whatever the calls of \<^verbatim>\<open>send_sms\<close> and \<^verbatim>\<open>send_email\<close> do (the theorem holds
  for every \<open>send_ok\<close>): a call that raises is caught and answered by one printed line,
  and nothing else of the outcome depends on it. A student without a phone gets no SMS
  attempt, a student without an e-mail address no e-mail attempt.
\<close>

theorem payment_reported_whatever_notification_does:
  assumes "logged_in rq" and "http_method rq = POST"
    and "form rq ''roll'' = Some roll" and "form rq ''amount'' = Some a"
    and "py_float e a = Some amount" and "form rq ''mode'' = Some mode"
    and "find (\<lambda>st. s_roll_no st = roll) (students_tbl s) = Some stud"
  shows "fst (fees e rq s) = Redirect_receipt (next_rowid (fees_seq s) (map f_id (fees_tbl s)))
     \<and> (\<exists>row. fees_tbl (snd (fees e rq s)) = fees_tbl s @ [row]
           \<and> f_id row = next_rowid (fees_seq s) (map f_id (fees_tbl s))
           \<and> f_student_id row = s_id stud \<and> f_amount row = amount)
     \<and> (\<exists>new. outbox (snd (fees e rq s)) = outbox s @ new
           \<and> (s_phone stud = [] \<longrightarrow> (\<forall>ph n. Send_sms ph n \<notin> set new))
           \<and> (s_email stud = [] \<longrightarrow> (\<forall>ad n. Send_email ad n \<notin> set new))
           \<and> printed (snd (fees e rq s)) = printed s
                @ (if \<exists>x\<in>set new. \<not> send_ok e x then [Notification_error_fees] else []))"
proof -
  define s1 where "s1 =
    s\<lparr>fees_tbl := fees_tbl s @
          [\<lparr>f_id = next_rowid (fees_seq s) (map f_id (fees_tbl s)),
            f_student_id = s_id stud, f_amount = amount,
            f_date = strftime_Ymd_HMS (now e 0), f_mode = mode,
            f_remark = (case form rq ''remark'' of None \<Rightarrow> [] | Some r \<Rightarrow> r)\<rparr>],
        fees_seq := next_rowid (fees_seq s) (map f_id (fees_tbl s))\<rparr>"
  define s2 where "s2 =
    notify e Notification_error_fees (s_phone stud) (Fees_sms (s_name stud) amount)
      (s_email stud) (Fees_email (s_name stud) amount) s1"
  have run: "fees e rq s = (Redirect_receipt (next_rowid (fees_seq s) (map f_id (fees_tbl s))), s2)"
    unfolding s2_def s1_def by (rule fees_post_found [OF assms])
  have old: "outbox s1 = outbox s" "printed s1 = printed s"
    by (simp_all add: s1_def)
  have "\<exists>row. fees_tbl s2 = fees_tbl s @ [row]
           \<and> f_id row = next_rowid (fees_seq s) (map f_id (fees_tbl s))
           \<and> f_student_id row = s_id stud \<and> f_amount row = amount"
    by (simp add: s2_def s1_def notify_tables)
  moreover have "\<exists>new. outbox s2 = outbox s @ new
           \<and> (s_phone stud = [] \<longrightarrow> (\<forall>ph n. Send_sms ph n \<notin> set new))
           \<and> (s_email stud = [] \<longrightarrow> (\<forall>ad n. Send_email ad n \<notin> set new))
           \<and> printed s2 = printed s
                @ (if \<exists>x\<in>set new. \<not> send_ok e x then [Notification_error_fees] else [])"
    unfolding s2_def old [symmetric] by (rule notify_attempts)
  ultimately show ?thesis unfolding run fst_conv snd_conv by (intro conjI refl)
qed

text \<open>The sample payment of 5000 for CS101, with a provider that always raises.\<close>

theorem payment_reported_whatever_notification_does_witness:
  "fst (fees sample_env (payment_request ''CS101'' ''5000'') sample_state) = Redirect_receipt 1
   \<and> \<not> send_ok sample_env (Send_sms ''9000000001'' (Fees_sms ''Asha'' 5000))
   \<and> printed (snd (fees sample_env (payment_request ''CS101'' ''5000'') sample_state))
       = [Notification_error_fees]"
proof -
  have fl: "py_float sample_env ''5000'' = Some 5000"
    by (simp add: sample_env_def sample_float_def)
  note inst = payment_reported_whatever_notification_does
    [OF sample_payment_fields(1-4) fl sample_payment_fields(5) sample_find_roll]
  have "fst (fees sample_env (payment_request ''CS101'' ''5000'') sample_state) = Redirect_receipt 1"
    using inst by (simp add: next_rowid_def sample_state_def init_db_def)
  moreover have "\<not> send_ok sample_env (Send_sms ''9000000001'' (Fees_sms ''Asha'' 5000))"
    by (simp add: sample_env_def)
  moreover have "printed (snd (fees sample_env (payment_request ''CS101'' ''5000'') sample_state))
       = [Notification_error_fees]"
    unfolding fees_post_found [OF sample_payment_fields(1-4) fl sample_payment_fields(5) sample_find_roll]
    by (simp add: notify_printed sample_student_def sample_env_def sample_state_def init_db_def)
  ultimately show ?thesis by (intro conjI)
qed

subsection \<open>The derived balance\<close>

lemma or_zero_id: "or_zero x = x"
  by (simp add: or_zero_def)


lemma student_profile_page:
  assumes "fst (student_profile i e rq s) = Student_profile_page st fs paid due"
  shows "find (\<lambda>st. s_id st = i) (students_tbl s) = Some st"
    and "fs = select_fees_of s i" and "paid = select_paid s i"
    and "due = s_total_fee st - select_paid s i"
    and "logged_in rq" and "http_method rq = GET"
  using assms
  by (auto simp: student_profile_def login_required_def Let_def or_zero_id
      split: if_splits option.splits)


lemma find_Some_set: "find P xs = Some x \<Longrightarrow> x \<in> set xs \<and> P x"
  by (induction xs) (auto split: if_splits)





lemma sample_float_values:
  "py_float sample_env ''5000'' = Some 5000"
  "py_float sample_env ''25000'' = Some 25000"
  "py_float sample_env ''-10'' = Some (- 10)"
  "py_float sample_env ''-5'' = Some (- 5)"
  by (simp_all add: sample_env_def sample_float_def)






subsection \<open>What the write paths check\<close>

lemma save_photo_snd:
  "students_tbl (snd (save_photo e rq pre s)) = students_tbl s"
  "fees_tbl (snd (save_photo e rq pre s)) = fees_tbl s"
  "students_seq (snd (save_photo e rq pre s)) = students_seq s"
  "fees_seq (snd (save_photo e rq pre s)) = fees_seq s"
  "outbox (snd (save_photo e rq pre s)) = outbox s"
  "printed (snd (save_photo e rq pre s)) = printed s"
  using save_photo_tables [of e rq pre s "fst (save_photo e rq pre s)" "snd (save_photo e rq pre s)"]
  by simp_all

lemma admission_post:
  assumes "logged_in rq" and "http_method rq = POST"
    and "form rq ''name'' = Some name" and "form rq ''roll'' = Some roll_no"
    and "form rq ''course'' = Some course" and "form rq ''year'' = Some year"
    and "form rq ''email'' = Some email" and "form rq ''phone'' = Some phone"
    and "total_fee_of_form e rq = Some total_fee"
  shows "admission e rq s =
     (if roll_no \<in> set (map s_roll_no (students_tbl s))
      then (Body ''Roll number already exists!'', snd (save_photo e rq roll_no s))
      else (Redirect_students,
            notify e Notification_error_admission
              phone (Admission_sms name) email (Admission_email name)
              ((snd (save_photo e rq roll_no s))
                 \<lparr>students_tbl := students_tbl s @
                    [\<lparr>s_id = next_rowid (students_seq s) (map s_id (students_tbl s)),
                      s_name = name, s_roll_no = roll_no, s_course = course, s_year = year,
                      s_email = email, s_phone = phone, s_total_fee = total_fee,
                      s_photo = fst (save_photo e rq roll_no s)\<rparr>],
                  students_seq := next_rowid (students_seq s) (map s_id (students_tbl s))\<rparr>)))"
  using assms
  by (simp add: admission_def login_required_def Let_def case_prod_beta save_photo_snd)

lemma admission_fees_unchanged:
  "fees_tbl (snd (admission e rq s)) = fees_tbl s"
  by (simp add: admission_def login_required_def Let_def case_prod_beta save_photo_snd
      notify_tables split: option.splits)


lemma sample_admission_fields:
  "logged_in (admission_request n r t)" "http_method (admission_request n r t) = POST"
  "form (admission_request n r t) ''name'' = Some n"
  "form (admission_request n r t) ''roll'' = Some r"
  "form (admission_request n r t) ''course'' = Some ''CSE''"
  "form (admission_request n r t) ''year'' = Some ''1''"
  "form (admission_request n r t) ''email'' = Some []"
  "form (admission_request n r t) ''phone'' = Some []"
  "form (admission_request n r t) ''total_fee'' = Some t"
  "files (admission_request n r t) ''photo'' = None"
  by (simp_all add: admission_request_def)

lemma sample_total_fee:
  "total_fee_of_form sample_env (admission_request n r ''-5'') = Some (- 5)"
  "total_fee_of_form sample_env (admission_request n r ''5000'') = Some 5000"
  by (simp_all add: total_fee_of_form_def sample_admission_fields sample_env_def sample_float_def)

lemma sample_no_photo: "save_photo e (admission_request n r t) pre s = (None, s)"
  by (simp add: save_photo_def sample_admission_fields)

text \<open>
  \<^verbatim>\<open>admission\<close> runs the same notification block after its commit: a stored student is
  answered with the redirect to the student list whatever the two calls do.
\<close>

lemma admission_reported_whatever_notification_does:
  assumes "logged_in rq" and "http_method rq = POST"
    and "form rq ''name'' = Some name" and "form rq ''roll'' = Some roll_no"
    and "form rq ''course'' = Some course" and "form rq ''year'' = Some year"
    and "form rq ''email'' = Some email" and "form rq ''phone'' = Some phone"
    and "total_fee_of_form e rq = Some total_fee"
    and "roll_no \<notin> set (map s_roll_no (students_tbl s))"
  shows "fst (admission e rq s) = Redirect_students
     \<and> (\<exists>new. outbox (snd (admission e rq s)) = outbox s @ new
           \<and> (phone = [] \<longrightarrow> (\<forall>ph n. Send_sms ph n \<notin> set new))
           \<and> (email = [] \<longrightarrow> (\<forall>ad n. Send_email ad n \<notin> set new))
           \<and> printed (snd (admission e rq s)) = printed s
                @ (if \<exists>x\<in>set new. \<not> send_ok e x then [Notification_error_admission] else []))"
proof -
  define s2 where "s2 =
    (snd (save_photo e rq roll_no s))
      \<lparr>students_tbl := students_tbl s @
         [\<lparr>s_id = next_rowid (students_seq s) (map s_id (students_tbl s)),
           s_name = name, s_roll_no = roll_no, s_course = course, s_year = year,
           s_email = email, s_phone = phone, s_total_fee = total_fee,
           s_photo = fst (save_photo e rq roll_no s)\<rparr>],
       students_seq := next_rowid (students_seq s) (map s_id (students_tbl s))\<rparr>"
  have run: "admission e rq s =
     (Redirect_students,
      notify e Notification_error_admission phone (Admission_sms name) email
        (Admission_email name) s2)"
    unfolding s2_def admission_post [OF assms(1-9)] using assms(10) by simp
  have old: "outbox s2 = outbox s" "printed s2 = printed s"
    by (simp_all add: s2_def save_photo_snd)
  show ?thesis
    unfolding run fst_conv snd_conv old [symmetric]
    by (intro conjI refl notify_attempts)
qed


text \<open>
  Claim C2, as stated, fails: \<^verbatim>\<open>fees\<close> has no check on the amount. A payment of -10 for
  the existing roll CS101 is answered with the redirect to receipt 1, and the entry with
  amount -10 is in the table.
\<close>

theorem nonpositive_payment_counterexample:
  "py_float sample_env ''-10'' = Some (- 10) \<and> (- 10 :: real) \<le> 0
   \<and> fees_tbl sample_state = []
   \<and> fst (fees sample_env (payment_request ''CS101'' ''-10'') sample_state) = Redirect_receipt 1
   \<and> map f_amount (fees_tbl (snd (fees sample_env (payment_request ''CS101'' ''-10'') sample_state)))
       = [- 10]"
  unfolding fees_post_found [OF sample_payment_fields(1-4) sample_float_values(3)
      sample_payment_fields(5) sample_find_roll]
  by (simp add: sample_float_values notify_tables next_rowid_def sample_state_def init_db_def)

text \<open>
  Claim C2, amended. A payment request whose amount is at most 0 never changes a student
  record. It is refused without any write only when the roll number is unknown (the
  answer is then ``Roll number not found!'' and the state is the same); when the roll
  number resolves, the entry is inserted with the amount as given and the caller is sent
  to its receipt.
\<close>

theorem nonpositive_payment_not_validated:
  assumes "logged_in rq" and "http_method rq = POST"
    and "form rq ''roll'' = Some roll" and "form rq ''amount'' = Some a"
    and "py_float e a = Some amount" and "form rq ''mode'' = Some mode"
    and "amount \<le> 0"
  shows "students_tbl (snd (fees e rq s)) = students_tbl s
     \<and> (case find (\<lambda>st. s_roll_no st = roll) (students_tbl s) of
          None \<Rightarrow> fees e rq s = (Body ''Roll number not found!'', s)
        | Some stud \<Rightarrow>
            fst (fees e rq s) = Redirect_receipt (next_rowid (fees_seq s) (map f_id (fees_tbl s)))
            \<and> (\<exists>row. fees_tbl (snd (fees e rq s)) = fees_tbl s @ [row]
                  \<and> f_student_id row = s_id stud \<and> f_amount row = amount))"
proof (cases "find (\<lambda>st. s_roll_no st = roll) (students_tbl s)")
  case None
  then show ?thesis using fees_post [OF assms(1-6), of s] by simp
next
  case (Some stud)
  show ?thesis
    unfolding fees_post_found [OF assms(1-6) Some] Some by (simp add: notify_tables)
qed

theorem nonpositive_payment_not_validated_witness:
  "(- 10 :: real) \<le> 0
   \<and> students_tbl (snd (fees sample_env (payment_request ''CS101'' ''-10'') sample_state))
       = [sample_student]
   \<and> fst (fees sample_env (payment_request ''CS101'' ''-10'') sample_state) = Redirect_receipt 1
   \<and> (\<exists>row. fees_tbl (snd (fees sample_env (payment_request ''CS101'' ''-10'') sample_state))
               = [row] \<and> f_student_id row = 1 \<and> f_amount row = - 10)"
proof -
  have le: "(- 10 :: real) \<le> 0" by simp
  note f = sample_payment_fields [of "''CS101''" "''-10''"]
  from nonpositive_payment_not_validated [OF f(1-4) sample_float_values(3) f(5) le,
      where s = sample_state]
  show ?thesis
    unfolding sample_find_roll
    by (simp add: next_rowid_def sample_state_def init_db_def sample_student_def)
qed






subsection \<open>Referential integrity\<close>

lemma read_only:
  "snd (dashboard e rq s) = s" "snd (dues_report e rq s) = s"
  "snd (student_profile i e rq s) = s" "snd (export_dues e rq s) = s"
  by (simp_all add: dashboard_def dues_report_def student_profile_def export_dues_def
      login_required_def Let_def split: option.splits)

lemma admission_students:
  "students_tbl (snd (admission e rq s)) = students_tbl s
   \<or> (\<exists>row. students_tbl (snd (admission e rq s)) = students_tbl s @ [row]
         \<and> s_id row = next_rowid (students_seq s) (map s_id (students_tbl s))
         \<and> students_seq (snd (admission e rq s)) = s_id row
         \<and> s_roll_no row \<notin> set (map s_roll_no (students_tbl s)))"
  by (simp add: admission_def login_required_def Let_def case_prod_beta save_photo_snd
      notify_tables split: option.splits)

lemma edit_student_tables:
  "fees_tbl (snd (edit_student i e rq s)) = fees_tbl s"
  "map s_id (students_tbl (snd (edit_student i e rq s))) = map s_id (students_tbl s)"
  "map s_roll_no (students_tbl (snd (edit_student i e rq s))) = map s_roll_no (students_tbl s)"
  "students_seq (snd (edit_student i e rq s)) = students_seq s"
  "fees_seq (snd (edit_student i e rq s)) = fees_seq s"
  by (auto simp: edit_student_def login_required_def Let_def case_prod_beta save_photo_snd
      split: option.splits)

lemma delete_student_tables:
  "fees_tbl (snd (delete_student i e rq s)) = fees_tbl s
     \<and> students_tbl (snd (delete_student i e rq s)) = students_tbl s
   \<or> fees_tbl (snd (delete_student i e rq s)) = filter (\<lambda>f. f_student_id f \<noteq> i) (fees_tbl s)
     \<and> students_tbl (snd (delete_student i e rq s)) = filter (\<lambda>st. s_id st \<noteq> i) (students_tbl s)"
  by (simp add: delete_student_def login_required_def Let_def)

lemma delete_student_post:
  assumes "logged_in rq" and "http_method rq = POST"
  shows "delete_student i e rq s =
    (Redirect_students,
     s\<lparr>fees_tbl := filter (\<lambda>f. f_student_id f \<noteq> i) (fees_tbl s),
       students_tbl := filter (\<lambda>st. s_id st \<noteq> i) (students_tbl s)\<rparr>)"
  using assms by (simp add: delete_student_def login_required_def Let_def)

lemma fees_effect:
  "fees_tbl (snd (fees e rq s)) = fees_tbl s
   \<or> (\<exists>row stud roll. fees_tbl (snd (fees e rq s)) = fees_tbl s @ [row]
         \<and> form rq ''roll'' = Some roll
         \<and> find (\<lambda>st. s_roll_no st = roll) (students_tbl s) = Some stud
         \<and> f_student_id row = s_id stud
         \<and> f_id row = next_rowid (fees_seq s) (map f_id (fees_tbl s))
         \<and> fees_seq (snd (fees e rq s)) = f_id row)"
  by (simp add: fees_def login_required_def Let_def notify_tables split: option.splits)

lemma fees_students_same: "students_tbl (snd (fees e rq s)) = students_tbl s"
  using fees_students_unchanged [of e rq s "fst (fees e rq s)" "snd (fees e rq s)"] by simp

lemma referential_integrity_iff:
  "referential_integrity s \<longleftrightarrow>
     (\<forall>f\<in>set (fees_tbl s). \<exists>st\<in>set (students_tbl s). s_id st = f_student_id f)"
  unfolding referential_integrity_def list_all_iff by (simp add: image_iff) metis

lemma dispatch_referential_integrity:
  assumes "referential_integrity s"
  shows "referential_integrity (snd (dispatch r e rq s))"
proof (cases r)
  case Admission
  from admission_students [of e rq s] assms show ?thesis
    unfolding Admission dispatch.simps
    by (auto simp: referential_integrity_iff admission_fees_unchanged)
next
  case (Edit_student i)
  from assms show ?thesis
    unfolding Edit_student dispatch.simps
    by (simp add: referential_integrity_def edit_student_tables del: set_map)
next
  case (Delete_student i)
  from delete_student_tables [of i e rq s] assms show ?thesis
    unfolding Delete_student dispatch.simps
    by (auto simp: referential_integrity_iff) metis+
next
  case Fees
  from fees_effect [of e rq s] assms show ?thesis
    unfolding Fees dispatch.simps
    by (auto simp: referential_integrity_iff fees_students_same)
       (metis find_Some_set)
qed (simp_all add: read_only assms)

lemma reachable_referential_integrity:
  "reachable s \<Longrightarrow> referential_integrity s"
proof (induction rule: reachable.induct)
  case start
  show ?case by (simp add: referential_integrity_def init_db_def)
next
  case (step s r e rq resp s')
  from dispatch_referential_integrity [OF step.IH, of r e rq] step.hyps(2)
  show ?case by simp
qed

lemma sample_admitted_value:
  "sample_admitted =
     init_db\<lparr>students_tbl :=
        [\<lparr>s_id = 1, s_name = ''Asha'', s_roll_no = ''CS101'', s_course = ''CSE'',
          s_year = ''1'', s_email = [], s_phone = [], s_total_fee = 5000, s_photo = None\<rparr>],
       students_seq := 1\<rparr>"
  unfolding sample_admitted_def
    admission_post [OF sample_admission_fields(1-8) sample_total_fee(2)]
  by (simp add: sample_no_photo notify_def next_rowid_def init_db_def)

lemma sample_date: "strftime_Ymd_HMS sample_clock = ''2024-03-09 10:30:00''"
  by code_simp

lemma sample_paid_value:
  "sample_paid =
     sample_admitted\<lparr>fees_tbl :=
        [\<lparr>f_id = 1, f_student_id = 1, f_amount = 5000, f_date = ''2024-03-09 10:30:00'',
          f_mode = ''cash'', f_remark = []\<rparr>],
       fees_seq := 1\<rparr>"
proof -
  have found: "find (\<lambda>st. s_roll_no st = ''CS101'') (students_tbl sample_admitted) =
      Some \<lparr>s_id = 1, s_name = ''Asha'', s_roll_no = ''CS101'', s_course = ''CSE'',
          s_year = ''1'', s_email = [], s_phone = [], s_total_fee = 5000, s_photo = None\<rparr>"
    by (simp add: sample_admitted_value init_db_def)
  show ?thesis
    unfolding sample_paid_def
      fees_post_found [OF sample_payment_fields(1-4) sample_float_values(1)
        sample_payment_fields(5) found]
    by (simp add: sample_payment_fields notify_def next_rowid_def sample_admitted_value
        init_db_def sample_env_def sample_date)
qed

lemma sample_paid_reachable: "reachable sample_paid"
proof -
  have "reachable sample_admitted"
    unfolding sample_admitted_def
    by (rule reachable.step [OF reachable.start, where r = Admission and e = sample_env
          and rq = "admission_request ''Asha'' ''CS101'' ''5000''"
          and resp = "fst (admission sample_env (admission_request ''Asha'' ''CS101'' ''5000'')
            init_db)"]) simp
  then show ?thesis
    unfolding sample_paid_def
    by (rule reachable.step [where r = Fees and e = sample_env
          and rq = "payment_request ''CS101'' ''5000''"
          and resp = "fst (fees sample_env (payment_request ''CS101'' ''5000'')
            sample_admitted)"]) simp
qed

text \<open>
  Claim C4. In every state reached from the empty database by the handlers, each fee entry
  carries the id of a stored student, and every handler keeps that property from any state
  that has it. \<^verbatim>\<open>delete_student\<close> removes the fee entries of the id together with the
  student, so the list of the id's entries is empty afterwards; \<^verbatim>\<open>fees\<close> either leaves
  the fee table as it is or appends one entry, with the id of the student its roll number
  resolved to.
\<close>

theorem referential_integrity_invariant:
  "(reachable s \<longrightarrow>
      (\<forall>f\<in>set (fees_tbl s). \<exists>st\<in>set (students_tbl s). s_id st = f_student_id f))
   \<and> (referential_integrity s \<longrightarrow> referential_integrity (snd (dispatch r e rq s)))
   \<and> (logged_in rq1 \<and> http_method rq1 = POST \<longrightarrow>
        (\<forall>f\<in>set (fees_tbl (snd (delete_student i e1 rq1 s))). f_student_id f \<noteq> i)
        \<and> (\<forall>st\<in>set (students_tbl (snd (delete_student i e1 rq1 s))). s_id st \<noteq> i)
        \<and> select_fees_of (snd (delete_student i e1 rq1 s)) i = [])
   \<and> (fees_tbl (snd (fees e2 rq2 s)) = fees_tbl s
        \<or> (\<exists>row stud roll. fees_tbl (snd (fees e2 rq2 s)) = fees_tbl s @ [row]
              \<and> form rq2 ''roll'' = Some roll
              \<and> find (\<lambda>st. s_roll_no st = roll) (students_tbl s) = Some stud
              \<and> stud \<in> set (students_tbl s)
              \<and> f_student_id row = s_id stud))"
proof (intro conjI impI)
  assume "reachable s"
  then show "\<forall>f\<in>set (fees_tbl s). \<exists>st\<in>set (students_tbl s). s_id st = f_student_id f"
    using reachable_referential_integrity referential_integrity_iff by blast
next
  assume "referential_integrity s"
  then show "referential_integrity (snd (dispatch r e rq s))"
    by (rule dispatch_referential_integrity)
next
  assume h: "logged_in rq1 \<and> http_method rq1 = POST"
  then have run: "delete_student i e1 rq1 s =
    (Redirect_students,
     s\<lparr>fees_tbl := filter (\<lambda>f. f_student_id f \<noteq> i) (fees_tbl s),
       students_tbl := filter (\<lambda>st. s_id st \<noteq> i) (students_tbl s)\<rparr>)"
    by (simp add: delete_student_post)
  show "\<forall>f\<in>set (fees_tbl (snd (delete_student i e1 rq1 s))). f_student_id f \<noteq> i"
    unfolding run by simp
  show "\<forall>st\<in>set (students_tbl (snd (delete_student i e1 rq1 s))). s_id st \<noteq> i"
    unfolding run by simp
  show "select_fees_of (snd (delete_student i e1 rq1 s)) i = []"
    unfolding run by (simp add: select_fees_of_def fees_by_id_desc_def)
next
  show "fees_tbl (snd (fees e2 rq2 s)) = fees_tbl s
        \<or> (\<exists>row stud roll. fees_tbl (snd (fees e2 rq2 s)) = fees_tbl s @ [row]
              \<and> form rq2 ''roll'' = Some roll
              \<and> find (\<lambda>st. s_roll_no st = roll) (students_tbl s) = Some stud
              \<and> stud \<in> set (students_tbl s)
              \<and> f_student_id row = s_id stud)"
    using fees_effect [of e2 rq2 s] by (metis find_Some_set)
qed

text \<open>
  After one admission and one payment the entry and the student share the id 1; deleting
  student 1 leaves no entry of that id.
\<close>

theorem referential_integrity_invariant_witness:
  "reachable sample_paid
   \<and> map f_student_id (fees_tbl sample_paid) = [1]
   \<and> map s_id (students_tbl sample_paid) = [1]
   \<and> referential_integrity sample_paid
   \<and> logged_in (payment_request [] []) \<and> http_method (payment_request [] []) = POST
   \<and> select_fees_of (snd (delete_student 1 sample_env (payment_request [] []) sample_paid)) 1 = []"
proof -
  note inst = referential_integrity_invariant
    [where s = sample_paid and ?rq1.0 = "payment_request [] []" and i = 1 and ?e1.0 = sample_env]
  have "\<forall>f\<in>set (fees_tbl sample_paid). \<exists>st\<in>set (students_tbl sample_paid).
         s_id st = f_student_id f"
    using inst sample_paid_reachable by blast
  then have "referential_integrity sample_paid"
    by (simp add: referential_integrity_iff)
  moreover have "select_fees_of
      (snd (delete_student 1 sample_env (payment_request [] []) sample_paid)) 1 = []"
    using inst sample_payment_fields(1,2) [of "[]" "[]"] by blast
  moreover have "map f_student_id (fees_tbl sample_paid) = [1]"
    "map s_id (students_tbl sample_paid) = [1]"
    by (simp_all add: sample_paid_value sample_admitted_value init_db_def)
  ultimately show ?thesis
    using sample_paid_reachable sample_payment_fields(1,2) [of "[]" "[]"] by (intro conjI)
qed

subsection \<open>Primary keys\<close>

text \<open>
  \<^verbatim>\<open>AUTOINCREMENT\<close> never reuses an id of the table, and the \<^verbatim>\<open>UNIQUE\<close> check keeps the
  roll numbers apart, so the handlers keep the constraints of the schema.
\<close>

lemma fold_max_ge: "x \<in> set ids \<Longrightarrow> x \<le> fold max ids (seq::nat)"
proof (induction ids arbitrary: seq)
  case Nil
  then show ?case by simp
next
  case (Cons a ids)
  have mono: "m \<le> fold max ids m" for m :: nat
    by (induction ids arbitrary: m) (auto intro: order_trans [OF max.cobounded2])
  show ?case
  proof (cases "x = a")
    case True
    then show ?thesis using mono [of "max a seq"] by simp
  next
    case False
    then show ?thesis using Cons by simp
  qed
qed

lemma next_rowid_fresh: "next_rowid seq ids \<notin> set ids"
  using fold_max_ge [of "next_rowid seq ids" ids seq] by (auto simp: next_rowid_def)

lemma dispatch_primary_keys:
  assumes "primary_keys s"
  shows "primary_keys (snd (dispatch r e rq s))"
proof (cases r)
  case Admission
  from admission_students [of e rq s] assms next_rowid_fresh [of "students_seq s" "map s_id (students_tbl s)"]
  show ?thesis
    unfolding Admission dispatch.simps primary_keys_def
    by (auto simp: admission_fees_unchanged)
next
  case (Edit_student i)
  from assms show ?thesis
    unfolding Edit_student dispatch.simps primary_keys_def
    by (simp add: edit_student_tables del: set_map)
next
  case (Delete_student i)
  from delete_student_tables [of i e rq s] assms show ?thesis
    unfolding Delete_student dispatch.simps primary_keys_def
    by (auto simp: distinct_map_filter)
next
  case Fees
  from fees_effect [of e rq s] assms next_rowid_fresh [of "fees_seq s" "map f_id (fees_tbl s)"]
  show ?thesis
    unfolding Fees dispatch.simps primary_keys_def
    by (auto simp: fees_students_same)
qed (simp_all add: read_only assms)

lemma reachable_primary_keys: "reachable s \<Longrightarrow> primary_keys s"
proof (induction rule: reachable.induct)
  case start
  show ?case by (simp add: primary_keys_def init_db_def)
next
  case (step s r e rq resp s')
  from dispatch_primary_keys [OF step.IH, of r e rq] step.hyps(2)
  show ?case by simp
qed

subsection \<open>Dashboard: today's collection\<close>








lemma sample_get_fields:
  "logged_in (get_request q)" "http_method (get_request q) = GET"
  "args (get_request q) ''q'' = Some q"
  by (simp_all add: get_request_def)



subsection \<open>The two computations of the balance\<close>

lemma export_dues_get:
  assumes "logged_in rq" and "http_method rq = GET"
  shows "export_dues e rq s =
     (Dues_csv [''ID'', ''Name'', ''Roll'', ''Course'', ''Phone'', ''Total Fee'', ''Paid'', ''Due'']
        (map (\<lambda>st. \<lparr>c_id = s_id st, c_name = s_name st, c_roll = s_roll_no st,
                     c_course = s_course st, c_phone = s_phone st,
                     c_total_fee = s_total_fee st, c_paid = select_paid s (s_id st),
                     c_due = s_total_fee st - select_paid s (s_id st)\<rparr>)
           (order_by_id (students_tbl s))), s)"
  using assms by (simp add: export_dues_def login_required_def Let_def or_zero_id)

lemma export_dues_csv:
  assumes "fst (export_dues e rq s) = Dues_csv header rows"
  shows "rows = map (\<lambda>st. \<lparr>c_id = s_id st, c_name = s_name st, c_roll = s_roll_no st,
                     c_course = s_course st, c_phone = s_phone st,
                     c_total_fee = s_total_fee st, c_paid = select_paid s (s_id st),
                     c_due = s_total_fee st - select_paid s (s_id st)\<rparr>)
           (order_by_id (students_tbl s))"
  using assms
  by (auto simp: export_dues_def login_required_def Let_def or_zero_id split: if_splits)

lemma same_id_same_row:
  assumes "distinct (map s_id xs)" and "x \<in> set xs" and "y \<in> set xs" and "s_id x = s_id y"
  shows "x = y"
  using assms by (meson distinct_map inj_onD)

lemma sample_ledger_keys: "primary_keys sample_ledger"
  by (simp add: primary_keys_def sample_ledger_def sample_state_def init_db_def sample_fee_def)

lemma sample_ledger_profile:
  "fst (student_profile 1 sample_env (get_request []) sample_ledger) =
     Student_profile_page sample_student
       [sample_fee 3 40 ''09/03/2024'', sample_fee 2 700 ''2024-03-08 09:00:00'',
        sample_fee 1 5000 ''2024-03-09 10:30:00''] 5740 14260"
  by (simp add: student_profile_def login_required_def get_request_def sample_ledger_def
      sample_state_def init_db_def sample_student_def sample_fee_def select_fees_of_def
      select_paid_def sum_amount_def fees_by_id_desc_def or_zero_def)

lemma sample_ledger_export:
  "fst (export_dues sample_env (get_request []) sample_ledger) =
     Dues_csv [''ID'', ''Name'', ''Roll'', ''Course'', ''Phone'', ''Total Fee'', ''Paid'', ''Due'']
       [\<lparr>c_id = 1, c_name = ''Asha'', c_roll = ''CS101'', c_course = ''CSE'',
         c_phone = ''9000000001'', c_total_fee = 20000, c_paid = 5740, c_due = 14260\<rparr>]"
  unfolding export_dues_get [OF sample_get_fields(1,2)]
  by (simp add: sample_ledger_def sample_state_def init_db_def sample_student_def
      sample_fee_def select_paid_def sum_amount_def order_by_id_def)

text \<open>
  Claim C6. In a state where \<^verbatim>\<open>id\<close> is a key, the dues export has a row for the student
  whose profile is shown, and every row of that id carries the \<open>paid\<close> and \<open>due\<close> of the
  profile: both handlers sum the amounts of the student's entries (0 without entries) and
  subtract the sum from the total fee.
\<close>

theorem export_matches_profile:
  assumes "primary_keys s"
    and "fst (export_dues e rq s) = Dues_csv header rows"
    and "fst (student_profile i e' rq' s) = Student_profile_page st fs paid due"
  shows "(\<exists>row\<in>set rows. c_id row = i)
     \<and> (\<forall>row\<in>set rows. c_id row = i \<longrightarrow>
           c_total_fee row = s_total_fee st \<and> c_paid row = paid \<and> c_due row = due)"
proof -
  note rows = export_dues_csv [OF assms(2)]
  note p = student_profile_page [OF assms(3)]
  have st: "st \<in> set (students_tbl s)" "s_id st = i"
    using find_Some_set [OF p(1)] by simp_all
  have dist: "distinct (map s_id (students_tbl s))"
    using assms(1) by (simp add: primary_keys_def)
  have "\<exists>row\<in>set rows. c_id row = i"
    unfolding rows using st by (auto simp: order_by_id_def intro!: bexI [of _ st])
  moreover have "c_total_fee row = s_total_fee st \<and> c_paid row = paid \<and> c_due row = due"
    if "row \<in> set rows" and "c_id row = i" for row
  proof -
    from that(1) obtain x where x: "x \<in> set (students_tbl s)"
      and row: "row = \<lparr>c_id = s_id x, c_name = s_name x, c_roll = s_roll_no x,
                     c_course = s_course x, c_phone = s_phone x,
                     c_total_fee = s_total_fee x, c_paid = select_paid s (s_id x),
                     c_due = s_total_fee x - select_paid s (s_id x)\<rparr>"
      unfolding rows by (auto simp: order_by_id_def)
    from that(2) row have "s_id x = s_id st" using st(2) by simp
    then have "x = st" by (rule same_id_same_row [OF dist x st(1)])
    then show ?thesis using row p(3,4) st(2) by simp
  qed
  ultimately show ?thesis by blast
qed

text \<open>The ledger of three entries: 5740 paid and 14260 due on both pages.\<close>

theorem export_matches_profile_witness:
  "primary_keys sample_ledger
   \<and> fst (student_profile 1 sample_env (get_request []) sample_ledger) =
       Student_profile_page sample_student
         [sample_fee 3 40 ''09/03/2024'', sample_fee 2 700 ''2024-03-08 09:00:00'',
          sample_fee 1 5000 ''2024-03-09 10:30:00''] 5740 14260
   \<and> fst (export_dues sample_env (get_request []) sample_ledger) =
       Dues_csv [''ID'', ''Name'', ''Roll'', ''Course'', ''Phone'', ''Total Fee'', ''Paid'', ''Due'']
         [\<lparr>c_id = 1, c_name = ''Asha'', c_roll = ''CS101'', c_course = ''CSE'',
           c_phone = ''9000000001'', c_total_fee = 20000, c_paid = 5740, c_due = 14260\<rparr>]
   \<and> (\<exists>row\<in>set [\<lparr>c_id = 1, c_name = ''Asha'', c_roll = ''CS101'', c_course = ''CSE'',
           c_phone = ''9000000001'', c_total_fee = 20000, c_paid = 5740, c_due = 14260\<rparr>].
         c_id row = 1)"
  using export_matches_profile [OF sample_ledger_keys sample_ledger_export sample_ledger_profile]
    sample_ledger_keys sample_ledger_export sample_ledger_profile
  by (intro conjI) blast+

subsection \<open>The dues report\<close>





text \<open>
  Moreover the query is placed in the \<^verbatim>\<open>LIKE\<close> pattern as it is, so \<^verbatim>\<open>%\<close> and \<^verbatim>\<open>_\<close> in it
  are wildcards: the query \<^verbatim>\<open>_\<close> lists CS101, whose roll number and name have no
  underscore.
\<close>

lemma dues_report_underscore:
  "fst (dues_report sample_env (get_request ''_'') sample_state) =
       Dues_report_page [\<lparr>r_student = sample_student, r_paid = 0, r_due = 20000\<rparr>] ''_''"
  by (simp add: dues_report_def login_required_def sample_get_fields strip_def isspace_def
        sample_state_def init_db_def select_paid_def sum_amount_def order_by_id_desc_def
        or_zero_def sample_student_def)



end
